theory Spec2Isabelle
  imports Main
begin

section \<open>The store of handles and the destruction tally\<close>

text \<open>
  The class \<open>unique_ptr<T>\<close> of \<open>common/compiler/unique_ptr.cpp\<close> has the single field
  \<open>native_ptr_\<close>, a raw pointer. A raw pointer is modelled by its address, a natural
  number, with \<open>nullptr\<close> the address 0. Several claims depend on two references naming
  the same \<open>unique_ptr\<close> object (self-assignment, \<open>a.swap(a)\<close>), so the \<open>unique_ptr\<close>
  objects live in an explicit store: \<open>mem s h\<close> is the field \<open>native_ptr_\<close> of the
  \<open>unique_ptr\<close> object at location \<open>h\<close>, \<open>live s\<close> is the set of locations whose
  \<open>unique_ptr\<close> object is within its lifetime (constructed and not yet destructed), and
  \<open>destroyed s\<close> lists, in order, the addresses to which a \<open>delete\<close> expression was
  applied with a non-null operand.
\<close>

type_synonym addr = nat
type_synonym loc = nat

definition nullptr :: addr where
  "nullptr = 0"

record state =
  mem :: "loc \<Rightarrow> addr"
  live :: "loc set"
  destroyed :: "addr list"

text \<open>Reading and writing the field \<open>native_ptr_\<close> of the object at \<open>this\<close>.\<close>

definition native_ptr :: "loc \<Rightarrow> state \<Rightarrow> addr" where
  "native_ptr this s = mem s this"

definition set_native_ptr :: "loc \<Rightarrow> addr \<Rightarrow> state \<Rightarrow> state" where
  "set_native_ptr this p s = s\<lparr>mem := (mem s)(this := p)\<rparr>"

text \<open>The expression \<open>delete p\<close>: nothing happens for a null operand; otherwise the
  object at \<open>p\<close> is destroyed, which the tally records.\<close>

definition delete_expr :: "addr \<Rightarrow> state \<Rightarrow> state" where
  "delete_expr p s = (if p = nullptr then s else s\<lparr>destroyed := destroyed s @ [p]\<rparr>)"

text \<open>Beginning and ending the lifetime of the \<open>unique_ptr\<close> object at a location.\<close>

definition begin_lifetime :: "loc \<Rightarrow> state \<Rightarrow> state" where
  "begin_lifetime this s = s\<lparr>live := insert this (live s)\<rparr>"

definition end_lifetime :: "loc \<Rightarrow> state \<Rightarrow> state" where
  "end_lifetime this s = s\<lparr>live := live s - {this}\<rparr>"

section \<open>The member functions\<close>

text \<open>\<^verbatim>\<open>inline void destroy() noexcept { delete native_ptr_; native_ptr_ = nullptr; }\<close>\<close>

definition destroy :: "loc \<Rightarrow> state \<Rightarrow> state" where
  "destroy this s = set_native_ptr this nullptr (delete_expr (native_ptr this s) s)"

text \<open>\<^verbatim>\<open>unique_ptr() noexcept : native_ptr_(nullptr) {}\<close>\<close>

definition default_ctor :: "loc \<Rightarrow> state \<Rightarrow> state" where
  "default_ctor this s = begin_lifetime this (set_native_ptr this nullptr s)"

text \<open>\<^verbatim>\<open>explicit unique_ptr(T *ptr) noexcept : native_ptr_(ptr) {}\<close>\<close>

definition ctor :: "loc \<Rightarrow> addr \<Rightarrow> state \<Rightarrow> state" where
  "ctor this ptr s = begin_lifetime this (set_native_ptr this ptr s)"

text \<open>
  \<^verbatim>\<open>unique_ptr(const unique_ptr &ptr) noexcept : native_ptr_(ptr.native_ptr_) {
      const_cast<unique_ptr &>(ptr).native_ptr_ = nullptr; }\<close>
  The argument \<open>ptr\<close> is a reference, here the location of the source handle.
\<close>

definition copy_ctor :: "loc \<Rightarrow> loc \<Rightarrow> state \<Rightarrow> state" where
  "copy_ctor this ptr s =
     (let s1 = begin_lifetime this (set_native_ptr this (native_ptr ptr s) s)
      in set_native_ptr ptr nullptr s1)"

text \<open>\<^verbatim>\<open>inline ~unique_ptr() noexcept { destroy(); }\<close>, after which the lifetime of the
  object at \<open>this\<close> has ended.\<close>

definition dtor :: "loc \<Rightarrow> state \<Rightarrow> state" where
  "dtor this s = end_lifetime this (destroy this s)"

text \<open>
  \<^verbatim>\<open>void swap(unique_ptr &ptr) noexcept {
      auto temp = native_ptr_; native_ptr_ = ptr.native_ptr_; ptr.native_ptr_ = temp; }\<close>
  The three statements are kept in their order, so that \<open>this = ptr\<close> is covered.
\<close>

definition swap :: "loc \<Rightarrow> loc \<Rightarrow> state \<Rightarrow> state" where
  "swap this ptr s =
     (let temp = native_ptr this s;
          s1 = set_native_ptr this (native_ptr ptr s) s
      in set_native_ptr ptr temp s1)"

text \<open>
  \<^verbatim>\<open>unique_ptr &operator=(unique_ptr ptr) noexcept { swap(ptr); return *this; }\<close>
  The body works on the parameter object \<open>ptr\<close>, which is passed by value: the caller
  builds it at a location of its own from the argument, through the constructor
  \<open>unique_ptr(const unique_ptr &)\<close>, and destructs it when the call is over.
  \<open>operator_assign\<close> is the body; \<open>assign tmp dst src\<close> is the whole expression
  \<open>dst = src\<close> for two handle lvalues, with \<open>tmp\<close> the location of the parameter.
\<close>

definition operator_assign :: "loc \<Rightarrow> loc \<Rightarrow> state \<Rightarrow> state" where
  "operator_assign this ptr s = swap this ptr s"

definition assign :: "loc \<Rightarrow> loc \<Rightarrow> loc \<Rightarrow> state \<Rightarrow> state" where
  "assign tmp dst src s =
     (let s1 = copy_ctor tmp src s;
          s2 = operator_assign dst tmp s1
      in dtor tmp s2)"

text \<open>\<^verbatim>\<open>inline void reset() noexcept { destroy(); }\<close>\<close>

definition reset :: "loc \<Rightarrow> state \<Rightarrow> state" where
  "reset this s = destroy this s"

text \<open>
  A \<open>static_assert\<close> is checked by the compiler, not at run time: its condition has to be
  a constant expression whose value is true. Otherwise the function that contains it is
  ill-formed, the program that instantiates the function is rejected, and no call of the
  function ever runs. \<open>static_assert c body\<close> takes for \<open>c\<close> the value of the condition as
  a constant expression, \<open>None\<close> when the condition is not a constant expression, and
  gives the function body \<open>body\<close> only when the assertion is accepted.
\<close>

datatype error = Ill_formed

definition static_assert :: "bool option \<Rightarrow> 'a \<Rightarrow> error + 'a" where
  "static_assert c body = (if c = Some True then Inr body else Inl Ill_formed)"

text \<open>
  \<^verbatim>\<open>void reset(T *ptr) noexcept {
      static_assert((nullptr == ptr) || (native_ptr_ != ptr), "");
      destroy(); native_ptr_ = ptr; }\<close>
  The condition reads the parameter \<open>ptr\<close> and, through \<open>this\<close>, the member
  \<open>native_ptr_\<close>: it is not a constant expression, whatever the arguments.
\<close>

definition reset_ptr :: "loc \<Rightarrow> addr \<Rightarrow> state \<Rightarrow> error + state" where
  "reset_ptr this ptr s = static_assert None (set_native_ptr this ptr (destroy this s))"

text \<open>\<^verbatim>\<open>inline T *release() noexcept { T *temp = native_ptr_; native_ptr_ = nullptr; return temp; }\<close>\<close>

definition release :: "loc \<Rightarrow> state \<Rightarrow> addr \<times> state" where
  "release this s =
     (let temp = native_ptr this s
      in (temp, set_native_ptr this nullptr s))"

text \<open>
  The remaining members are declared \<open>const\<close>. The class casts constness away elsewhere
  (in the constructor from \<open>const unique_ptr &\<close>), so the model does not take \<open>const\<close> on
  trust: these functions too return the state they leave behind.

  \<^verbatim>\<open>inline explicit operator bool() const noexcept { return nullptr != native_ptr_; }\<close>
\<close>

definition operator_bool :: "loc \<Rightarrow> state \<Rightarrow> bool \<times> state" where
  "operator_bool this s = (nullptr \<noteq> native_ptr this s, s)"

text \<open>
  \<^verbatim>\<open>inline T &operator*() const noexcept {
      static_assert(nullptr != native_ptr_, ""); return *native_ptr_; }\<close>
  The result is a reference to the object \<open>*native_ptr_\<close>, modelled by the address of the
  object referred to. The condition of the \<open>static_assert\<close> reads the member
  \<open>native_ptr_\<close> through \<open>this\<close>, so it is not a constant expression.
\<close>

definition operator_star :: "loc \<Rightarrow> state \<Rightarrow> error + (addr \<times> state)" where
  "operator_star this s = static_assert None (native_ptr this s, s)"

text \<open>
  \<^verbatim>\<open>inline T *operator->() const noexcept {
      static_assert(nullptr != native_ptr_, ""); return native_ptr_; }\<close>
\<close>

definition operator_arrow :: "loc \<Rightarrow> state \<Rightarrow> error + (addr \<times> state)" where
  "operator_arrow this s = static_assert None (native_ptr this s, s)"

text \<open>\<^verbatim>\<open>inline T *get() const noexcept { return native_ptr_; }\<close>\<close>

definition get :: "loc \<Rightarrow> state \<Rightarrow> addr \<times> state" where
  "get this s = (native_ptr this s, s)"

section \<open>The comparison operators\<close>

text \<open>
  The six free functions are templates over two element types \<open>T\<close> and \<open>U\<close>: each
  evaluates \<open>l.get()\<close>, a \<open>T *\<close>, then \<open>r.get()\<close>, a \<open>U *\<close>, and compares the two. Before
  it compares two pointers of different types the language converts them to their common
  pointer type. The element types and their layouts are not part of the source file, so
  the conversion each side goes through is a parameter of the model: \<open>Same\<close> when the
  pointer already has the common type, \<open>To_base k\<close> when it points to a derived class
  whose base subobject of the common type lies \<open>k\<close> bytes into the derived object. A null
  pointer converts to the null pointer.
\<close>

datatype conversion = Same | To_base nat

fun convert :: "conversion \<Rightarrow> addr \<Rightarrow> addr" where
  "convert Same p = p"
| "convert (To_base k) p = (if p = nullptr then nullptr else p + k)"

definition compare_with ::
  "(addr \<Rightarrow> addr \<Rightarrow> bool) \<Rightarrow> conversion \<Rightarrow> conversion \<Rightarrow> loc \<Rightarrow> loc \<Rightarrow> state \<Rightarrow> bool \<times> state" where
  "compare_with rel cl cr l r s =
     (let (a, s1) = get l s;
          (b, s2) = get r s1
      in (rel (convert cl a) (convert cr b), s2))"

definition operator_eq :: "conversion \<Rightarrow> conversion \<Rightarrow> loc \<Rightarrow> loc \<Rightarrow> state \<Rightarrow> bool \<times> state" where
  "operator_eq cl cr l r s = compare_with (\<lambda>a b. a = b) cl cr l r s"

definition operator_ne :: "conversion \<Rightarrow> conversion \<Rightarrow> loc \<Rightarrow> loc \<Rightarrow> state \<Rightarrow> bool \<times> state" where
  "operator_ne cl cr l r s = compare_with (\<lambda>a b. a \<noteq> b) cl cr l r s"

definition operator_le :: "conversion \<Rightarrow> conversion \<Rightarrow> loc \<Rightarrow> loc \<Rightarrow> state \<Rightarrow> bool \<times> state" where
  "operator_le cl cr l r s = compare_with (\<lambda>a b. a \<le> b) cl cr l r s"

definition operator_lt :: "conversion \<Rightarrow> conversion \<Rightarrow> loc \<Rightarrow> loc \<Rightarrow> state \<Rightarrow> bool \<times> state" where
  "operator_lt cl cr l r s = compare_with (\<lambda>a b. a < b) cl cr l r s"

definition operator_ge :: "conversion \<Rightarrow> conversion \<Rightarrow> loc \<Rightarrow> loc \<Rightarrow> state \<Rightarrow> bool \<times> state" where
  "operator_ge cl cr l r s = compare_with (\<lambda>a b. a \<ge> b) cl cr l r s"

definition operator_gt :: "conversion \<Rightarrow> conversion \<Rightarrow> loc \<Rightarrow> loc \<Rightarrow> state \<Rightarrow> bool \<times> state" where
  "operator_gt cl cr l r s = compare_with (\<lambda>a b. a > b) cl cr l r s"

section \<open>Programs over handles\<close>

text \<open>
  A program that runs is a sequence of the operations of the class that can be called.
  \<open>Assign tmp dst src\<close> is the expression \<open>dst = src\<close>, with \<open>tmp\<close> the location of the
  by-value parameter. \<open>Compare l r\<close> stands for any of the six comparison operators: what
  each does to the state is to evaluate \<open>l.get()\<close> and then \<open>r.get()\<close>. The members
  \<open>reset(T *)\<close>, \<open>operator*\<close> and \<open>operator->\<close> are not among the operations: a program
  that calls one of them is rejected by the compiler, so no run contains such a call.
\<close>

datatype op =
    Default_ctor loc
  | Ctor loc addr
  | Copy_ctor loc loc
  | Dtor loc
  | Assign loc loc loc
  | Reset loc
  | Swap loc loc
  | Release loc
  | Get loc
  | Operator_bool loc
  | Compare loc loc

fun step :: "op \<Rightarrow> state \<Rightarrow> state" where
  "step (Default_ctor h) s = default_ctor h s"
| "step (Ctor h p) s = ctor h p s"
| "step (Copy_ctor h src) s = copy_ctor h src s"
| "step (Dtor h) s = dtor h s"
| "step (Assign tmp dst src) s = assign tmp dst src s"
| "step (Reset h) s = reset h s"
| "step (Swap a b) s = swap a b s"
| "step (Release h) s = snd (release h s)"
| "step (Get h) s = snd (get h s)"
| "step (Operator_bool h) s = snd (operator_bool h s)"
| "step (Compare l r) s = snd (get r (snd (get l s)))"

fun exec :: "op list \<Rightarrow> state \<Rightarrow> state" where
  "exec [] s = s"
| "exec (x # xs) s = exec xs (step x s)"

text \<open>
  The language lets a program construct a handle only where none lives, and use or
  destruct a handle only within its lifetime. \<open>in_lifetime x s\<close> says this of one
  operation, \<open>well_scoped\<close> of every operation of a program, each in the state it runs in.
\<close>

fun in_lifetime :: "op \<Rightarrow> state \<Rightarrow> bool" where
  "in_lifetime (Default_ctor h) s = (h \<notin> live s)"
| "in_lifetime (Ctor h p) s = (h \<notin> live s)"
| "in_lifetime (Copy_ctor h src) s = (h \<notin> live s \<and> src \<in> live s)"
| "in_lifetime (Dtor h) s = (h \<in> live s)"
| "in_lifetime (Assign tmp dst src) s = (tmp \<notin> live s \<and> dst \<in> live s \<and> src \<in> live s)"
| "in_lifetime (Reset h) s = (h \<in> live s)"
| "in_lifetime (Swap a b) s = (a \<in> live s \<and> b \<in> live s)"
| "in_lifetime (Release h) s = (h \<in> live s)"
| "in_lifetime (Get h) s = (h \<in> live s)"
| "in_lifetime (Operator_bool h) s = (h \<in> live s)"
| "in_lifetime (Compare l r) s = (l \<in> live s \<and> r \<in> live s)"

fun well_scoped :: "op list \<Rightarrow> state \<Rightarrow> bool" where
  "well_scoped [] s = True"
| "well_scoped (x # xs) s = (in_lifetime x s \<and> well_scoped xs (step x s))"

text \<open>
  The class checks nothing about a raw address it is handed. \<open>unclaimed p s\<close> is the
  caller's side of the bargain: \<open>p\<close> is null, or no live handle holds \<open>p\<close> and the object
  at \<open>p\<close> has not been destroyed (an address stands for one object throughout).
  \<open>relinquishing\<close> says it of every raw address from which a program constructs a handle.
\<close>

definition unclaimed :: "addr \<Rightarrow> state \<Rightarrow> bool" where
  "unclaimed p s = (p = nullptr \<or> (p \<notin> set (destroyed s) \<and> (\<forall>h \<in> live s. mem s h \<noteq> p)))"

fun hands_over :: "op \<Rightarrow> state \<Rightarrow> bool" where
  "hands_over (Ctor h p) s = unclaimed p s"
| "hands_over x s = True"

fun relinquishing :: "op list \<Rightarrow> state \<Rightarrow> bool" where
  "relinquishing [] s = True"
| "relinquishing (x # xs) s = (hands_over x s \<and> relinquishing xs (step x s))"

text \<open>Exclusive ownership: no address is destroyed twice, no live handle holds a
  destroyed address, and no two live handles hold the same non-null address.\<close>

definition exclusive :: "state \<Rightarrow> bool" where
  "exclusive s =
     (distinct (destroyed s)
      \<and> (\<forall>h \<in> live s. mem s h \<noteq> nullptr \<longrightarrow> mem s h \<notin> set (destroyed s))
      \<and> (\<forall>h \<in> live s. \<forall>k \<in> live s. h \<noteq> k \<longrightarrow> mem s h \<noteq> nullptr \<longrightarrow> mem s h \<noteq> mem s k))"

text \<open>
  The reference program that the specification gives for transfer-assignment, written
  after the specification's words and not after the code: destroy whatever \<open>dst\<close> owns,
  then transfer-construct from \<open>src\<close> into \<open>dst\<close>, leaving \<open>src\<close> empty.
\<close>

definition assign_reference :: "loc \<Rightarrow> loc \<Rightarrow> state \<Rightarrow> state" where
  "assign_reference dst src s = copy_ctor dst src (destroy dst s)"

text \<open>The start of a program: no handle lives, nothing has been destroyed.\<close>

definition initial :: state where
  "initial = \<lparr>mem = (\<lambda>h. nullptr), live = {}, destroyed = []\<rparr>"

section \<open>Facts shared by the proofs\<close>

lemmas field_defs = native_ptr_def set_native_ptr_def delete_expr_def begin_lifetime_def
  end_lifetime_def

lemmas run_defs = initial_def ctor_def default_ctor_def copy_ctor_def dtor_def destroy_def
  swap_def assign_def assign_reference_def operator_assign_def reset_def
  release_def get_def operator_bool_def
  unclaimed_def field_defs nullptr_def Let_def

lemma exclusive_default_ctor:
  "h \<notin> live s \<Longrightarrow> exclusive s \<Longrightarrow> exclusive (default_ctor h s)"
  by (auto simp add: exclusive_def default_ctor_def field_defs)

lemma exclusive_ctor:
  "h \<notin> live s \<Longrightarrow> unclaimed p s \<Longrightarrow> exclusive s \<Longrightarrow> exclusive (ctor h p s)"
  by (auto simp add: exclusive_def unclaimed_def ctor_def field_defs)

lemma exclusive_copy_ctor:
  "h \<notin> live s \<Longrightarrow> src \<in> live s \<Longrightarrow> exclusive s \<Longrightarrow> exclusive (copy_ctor h src s)"
  by (auto simp add: exclusive_def copy_ctor_def field_defs Let_def)

lemma exclusive_destroy:
  "h \<in> live s \<Longrightarrow> exclusive s \<Longrightarrow> exclusive (destroy h s)"
  by (auto simp add: exclusive_def destroy_def field_defs)

lemma exclusive_dtor:
  "h \<in> live s \<Longrightarrow> exclusive s \<Longrightarrow> exclusive (dtor h s)"
  by (auto simp add: exclusive_def dtor_def destroy_def field_defs)

lemma exclusive_swap:
  "a \<in> live s \<Longrightarrow> b \<in> live s \<Longrightarrow> exclusive s \<Longrightarrow> exclusive (swap a b s)"
  by (auto simp add: exclusive_def swap_def field_defs Let_def)

lemma exclusive_release:
  "h \<in> live s \<Longrightarrow> exclusive s \<Longrightarrow> exclusive (snd (release h s))"
  by (auto simp add: exclusive_def release_def field_defs Let_def)

lemma live_copy_ctor: "live (copy_ctor h src s) = insert h (live s)"
  by (simp add: copy_ctor_def field_defs Let_def)

lemma live_swap: "live (swap a b s) = live s"
  by (simp add: swap_def field_defs Let_def)

lemma exclusive_assign:
  assumes "tmp \<notin> live s" "dst \<in> live s" "src \<in> live s" "exclusive s"
  shows "exclusive (assign tmp dst src s)"
proof -
  let ?s1 = "copy_ctor tmp src s"
  let ?s2 = "swap dst tmp ?s1"
  have e1: "exclusive ?s1"
    using assms by (simp add: exclusive_copy_ctor)
  have l1: "dst \<in> live ?s1" "tmp \<in> live ?s1"
    using assms by (simp_all add: live_copy_ctor)
  have e2: "exclusive ?s2"
    using e1 l1 by (simp add: exclusive_swap)
  have "tmp \<in> live ?s2"
    using l1 by (simp add: live_swap)
  then have "exclusive (dtor tmp ?s2)"
    using e2 by (simp add: exclusive_dtor)
  then show ?thesis
    by (simp add: assign_def operator_assign_def Let_def)
qed

lemma exclusive_step:
  "in_lifetime x s \<Longrightarrow> hands_over x s \<Longrightarrow> exclusive s \<Longrightarrow> exclusive (step x s)"
  by (cases x)
     (simp_all add: exclusive_default_ctor exclusive_ctor exclusive_copy_ctor
        exclusive_dtor exclusive_assign exclusive_destroy reset_def
        exclusive_swap exclusive_release get_def operator_bool_def)

lemma exclusive_exec:
  "well_scoped xs s \<Longrightarrow> relinquishing xs s \<Longrightarrow> exclusive s \<Longrightarrow> exclusive (exec xs s)"
proof (induction xs arbitrary: s)
  case Nil
  then show ?case by simp
next
  case (Cons x xs)
  from Cons.prems have "exclusive (step x s)"
    by (simp add: exclusive_step)
  with Cons.IH Cons.prems show ?case
    by simp
qed

lemma exclusive_start: "live s = {} \<Longrightarrow> destroyed s = [] \<Longrightarrow> exclusive s"
  by (simp add: exclusive_def)

section \<open>The claims\<close>

text \<open>
  C1, as the code has it. Constructing a handle at \<open>h\<close> from the address \<open>p\<close> of an object
  and then running the destructor of \<open>h\<close> destroys \<open>p\<close> exactly once: the tally grows by
  the single entry \<open>p\<close>. And in every program that starts with no handle and nothing
  destroyed, that uses every handle within its lifetime, and that constructs handles only
  from raw addresses which are null or unclaimed (held by no live handle and not yet
  destroyed), no address is destroyed more than once.
\<close>

theorem C1_destroyed_once:
  "(p \<noteq> nullptr \<longrightarrow> destroyed (dtor h (ctor h p s)) = destroyed s @ [p])
   \<and> (live s = {} \<and> destroyed s = [] \<and> well_scoped xs s \<and> relinquishing xs s \<longrightarrow>
        distinct (destroyed (exec xs s)))"
proof (intro conjI impI)
  assume "p \<noteq> nullptr"
  then show "destroyed (dtor h (ctor h p s)) = destroyed s @ [p]"
    by (simp add: dtor_def ctor_def destroy_def field_defs)
next
  assume a: "live s = {} \<and> destroyed s = [] \<and> well_scoped xs s \<and> relinquishing xs s"
  then have "exclusive s"
    by (simp add: exclusive_start)
  with a have "exclusive (exec xs s)"
    by (simp add: exclusive_exec)
  then show "distinct (destroyed (exec xs s))"
    by (simp add: exclusive_def)
qed

theorem C1_destroyed_once_witness:
  "(1::addr) \<noteq> nullptr
   \<and> destroyed (dtor 0 (ctor 0 1 initial)) = destroyed initial @ [1]
   \<and> live initial = {} \<and> destroyed initial = []
   \<and> well_scoped [Ctor 0 1, Copy_ctor 1 0, Assign 2 0 1, Ctor 3 2, Swap 0 3, Get 0,
        Operator_bool 1, Compare 0 1, Reset 0, Release 1, Dtor 0, Dtor 1, Dtor 3] initial
   \<and> relinquishing [Ctor 0 1, Copy_ctor 1 0, Assign 2 0 1, Ctor 3 2, Swap 0 3, Get 0,
        Operator_bool 1, Compare 0 1, Reset 0, Release 1, Dtor 0, Dtor 1, Dtor 3] initial
   \<and> destroyed (exec [Ctor 0 1, Copy_ctor 1 0, Assign 2 0 1, Ctor 3 2, Swap 0 3, Get 0,
        Operator_bool 1, Compare 0 1, Reset 0, Release 1, Dtor 0, Dtor 1, Dtor 3] initial)
       = [2, 1]
   \<and> distinct [2 :: addr, 1]"
  using C1_destroyed_once [of 1 0 initial
      "[Ctor 0 1, Copy_ctor 1 0, Assign 2 0 1, Ctor 3 2, Swap 0 3, Get 0,
        Operator_bool 1, Compare 0 1, Reset 0, Release 1, Dtor 0, Dtor 1, Dtor 3]"]
  by (simp add: run_defs)

text \<open>
  C1 as it is stated fails: the program that constructs two handles from the one address 1
  and destructs both uses each handle within its lifetime, and destroys address 1 twice.
\<close>

theorem C1_double_destroy_counterexample:
  "well_scoped [Ctor 0 1, Ctor 1 1, Dtor 0, Dtor 1] initial
   \<and> destroyed (exec [Ctor 0 1, Ctor 1 1, Dtor 0, Dtor 1] initial) = [1, 1]
   \<and> \<not> distinct [1 :: addr, 1]"
  by (simp add: run_defs)

text \<open>
  C2. When the handle at \<open>a\<close> holds \<open>p\<close>, transfer-constructing a new handle at \<open>b\<close> from it
  gives \<open>b.get() == p\<close> and leaves \<open>a\<close> empty, with nothing destroyed; destructing \<open>a\<close>
  afterwards destroys nothing either, and \<open>b\<close> still holds \<open>p\<close>.
\<close>

theorem C2_transfer_construct:
  "a \<noteq> b \<Longrightarrow> native_ptr a s = p \<Longrightarrow>
     fst (get b (copy_ctor b a s)) = p
   \<and> fst (get a (copy_ctor b a s)) = nullptr
   \<and> destroyed (copy_ctor b a s) = destroyed s
   \<and> destroyed (dtor a (copy_ctor b a s)) = destroyed s
   \<and> fst (get b (dtor a (copy_ctor b a s))) = p"
  by (simp add: copy_ctor_def dtor_def destroy_def get_def field_defs Let_def)

theorem C2_transfer_construct_witness:
  "(0::loc) \<noteq> 1 \<and> native_ptr 0 (ctor 0 7 initial) = 7
   \<and> fst (get 1 (copy_ctor 1 0 (ctor 0 7 initial))) = 7
   \<and> fst (get 0 (copy_ctor 1 0 (ctor 0 7 initial))) = nullptr
   \<and> destroyed (copy_ctor 1 0 (ctor 0 7 initial)) = destroyed (ctor 0 7 initial)
   \<and> destroyed (dtor 0 (copy_ctor 1 0 (ctor 0 7 initial))) = destroyed (ctor 0 7 initial)
   \<and> fst (get 1 (dtor 0 (copy_ctor 1 0 (ctor 0 7 initial)))) = 7"
  using C2_transfer_construct [of 0 1 "ctor 0 7 initial" 7]
  by (simp add: run_defs)

text \<open>
  C3. For two distinct live handles \<open>dst\<close> and \<open>src\<close>, and the by-value parameter at a
  location \<open>tmp\<close> where no handle lives, the expression \<open>dst = src\<close> and the reference
  program destroy the same addresses in the same order, leave the same handles alive,
  and leave every handle other than the parameter (whose lifetime is over) with the same
  address. In both, \<open>dst\<close> ends with the address \<open>src\<close> had, \<open>src\<close> ends empty, and the one
  destruction is that of the object \<open>dst\<close> owned, if it owned one.
\<close>

theorem C3_assign_refines_reference:
  "tmp \<notin> live s \<Longrightarrow> dst \<in> live s \<Longrightarrow> src \<in> live s \<Longrightarrow> dst \<noteq> src \<Longrightarrow>
     destroyed (assign tmp dst src s) = destroyed (assign_reference dst src s)
   \<and> live (assign tmp dst src s) = live (assign_reference dst src s)
   \<and> (\<forall>h. h \<noteq> tmp \<longrightarrow>
         native_ptr h (assign tmp dst src s) = native_ptr h (assign_reference dst src s))
   \<and> native_ptr dst (assign tmp dst src s) = native_ptr src s
   \<and> native_ptr src (assign tmp dst src s) = nullptr
   \<and> destroyed (assign tmp dst src s) =
       destroyed s @ (if native_ptr dst s = nullptr then [] else [native_ptr dst s])"
  by (auto simp add: assign_def assign_reference_def operator_assign_def swap_def
        copy_ctor_def dtor_def destroy_def field_defs Let_def)

theorem C3_assign_refines_reference_witness:
  "(2::loc) \<notin> live (ctor 1 8 (ctor 0 7 initial))
   \<and> 0 \<in> live (ctor 1 8 (ctor 0 7 initial))
   \<and> 1 \<in> live (ctor 1 8 (ctor 0 7 initial))
   \<and> (0::loc) \<noteq> 1
   \<and> destroyed (assign 2 0 1 (ctor 1 8 (ctor 0 7 initial))) = [7]
   \<and> destroyed (assign_reference 0 1 (ctor 1 8 (ctor 0 7 initial))) = [7]
   \<and> live (assign 2 0 1 (ctor 1 8 (ctor 0 7 initial)))
       = live (assign_reference 0 1 (ctor 1 8 (ctor 0 7 initial)))
   \<and> native_ptr 0 (assign 2 0 1 (ctor 1 8 (ctor 0 7 initial))) = 8
   \<and> native_ptr 0 (assign_reference 0 1 (ctor 1 8 (ctor 0 7 initial))) = 8
   \<and> native_ptr 1 (assign 2 0 1 (ctor 1 8 (ctor 0 7 initial))) = nullptr
   \<and> native_ptr 1 (assign_reference 0 1 (ctor 1 8 (ctor 0 7 initial))) = nullptr"
  using C3_assign_refines_reference [of 2 "ctor 1 8 (ctor 0 7 initial)" 0 1]
  by (simp add: run_defs)

text \<open>
  C4. Assigning the handle at \<open>a\<close> to itself, \<open>a = a\<close>, with the by-value parameter at
  another location \<open>tmp\<close>, leaves \<open>a\<close> holding the address it held before, destroys
  nothing, and leaves \<open>a\<close> alive if it was.
\<close>

theorem C4_self_assign:
  "tmp \<noteq> a \<Longrightarrow>
     native_ptr a (assign tmp a a s) = native_ptr a s
   \<and> destroyed (assign tmp a a s) = destroyed s
   \<and> (a \<in> live s \<longrightarrow> a \<in> live (assign tmp a a s))"
  by (simp add: assign_def operator_assign_def swap_def copy_ctor_def dtor_def destroy_def
        field_defs Let_def)

theorem C4_self_assign_witness:
  "(1::loc) \<noteq> 0
   \<and> native_ptr 0 (ctor 0 7 initial) = 7
   \<and> native_ptr 0 (assign 1 0 0 (ctor 0 7 initial)) = 7
   \<and> destroyed (assign 1 0 0 (ctor 0 7 initial)) = []
   \<and> 0 \<in> live (ctor 0 7 initial)
   \<and> 0 \<in> live (assign 1 0 0 (ctor 0 7 initial))"
  using C4_self_assign [of 1 0 "ctor 0 7 initial"]
  by (simp add: run_defs)

text \<open>
  C5. The claim has \<open>reset(q)\<close>, on a handle that holds a non-null \<open>p\<close> different from a
  non-null \<open>q\<close>, destroy \<open>p\<close> once and bind \<open>q\<close>, with the aliasing precondition checked by
  an assertion at run time. The code does not do this: its assertion is a
  \<open>static_assert\<close> over values known only at run time, so \<open>reset(T *)\<close> is ill-formed for
  every handle and every address, and no call of it returns a state.
\<close>

theorem C5_reset_to_address_ill_formed:
  "reset_ptr h q s = Inl Ill_formed"
  by (simp add: reset_ptr_def static_assert_def)

theorem C5_reset_to_address_ill_formed_witness:
  "native_ptr 0 (ctor 0 7 initial) = 7
   \<and> reset_ptr 0 8 (ctor 0 7 initial) = Inl Ill_formed"
  using C5_reset_to_address_ill_formed [of 0 8 "ctor 0 7 initial"]
  by (simp add: run_defs)

text \<open>
  C6. On any handle, empty or not, \<open>release()\<close> returns the address the handle holds (null
  for an empty handle) and leaves the handle empty; nothing else in the store changes,
  and nothing is destroyed.
\<close>

theorem C6_release:
  "release h s = (native_ptr h s, s\<lparr>mem := (mem s)(h := nullptr)\<rparr>)
   \<and> fst (get h (snd (release h s))) = nullptr
   \<and> destroyed (snd (release h s)) = destroyed s
   \<and> live (snd (release h s)) = live s"
  by (simp add: release_def get_def field_defs)

theorem C6_release_witness:
  "fst (release 0 (ctor 0 7 initial)) = 7
   \<and> fst (get 0 (snd (release 0 (ctor 0 7 initial)))) = nullptr
   \<and> destroyed (snd (release 0 (ctor 0 7 initial))) = []
   \<and> fst (release 0 (default_ctor 0 initial)) = nullptr
   \<and> destroyed (snd (release 0 (default_ctor 0 initial))) = []"
  using C6_release [of 0 "ctor 0 7 initial"] C6_release [of 0 "default_ctor 0 initial"]
  by (simp add: run_defs)

text \<open>
  C7. For any two handles \<open>a\<close> and \<open>b\<close> (also when they are the same handle), \<open>a.swap(b)\<close>
  exchanges their two addresses, changes no other handle, begins and ends no lifetime and
  destroys nothing; swapping twice gives back the state it started from.
\<close>

theorem C7_swap_involution:
  "native_ptr a (swap a b s) = native_ptr b s
   \<and> native_ptr b (swap a b s) = native_ptr a s
   \<and> (\<forall>h. h \<noteq> a \<and> h \<noteq> b \<longrightarrow> native_ptr h (swap a b s) = native_ptr h s)
   \<and> destroyed (swap a b s) = destroyed s
   \<and> live (swap a b s) = live s
   \<and> swap a b (swap a b s) = s"
  by (simp add: swap_def field_defs Let_def)

theorem C7_swap_involution_witness:
  "native_ptr 0 (swap 0 1 (ctor 1 8 (ctor 0 7 initial))) = 8
   \<and> native_ptr 1 (swap 0 1 (ctor 1 8 (ctor 0 7 initial))) = 7
   \<and> destroyed (swap 0 1 (ctor 1 8 (ctor 0 7 initial))) = []
   \<and> swap 0 1 (swap 0 1 (ctor 1 8 (ctor 0 7 initial))) = ctor 1 8 (ctor 0 7 initial)"
  using C7_swap_involution [of 0 1 "ctor 1 8 (ctor 0 7 initial)"]
  by (simp add: run_defs)

text \<open>
  C8. \<open>reset()\<close> destroys the object the handle owns, if it owns one, and leaves the handle
  empty. On an empty handle it changes nothing at all and destroys nothing, and a second
  \<open>reset()\<close> right after a first has no further effect.
\<close>

theorem C8_reset_idempotent:
  "destroyed (reset h s) =
       destroyed s @ (if native_ptr h s = nullptr then [] else [native_ptr h s])
   \<and> native_ptr h (reset h s) = nullptr
   \<and> (native_ptr h s = nullptr \<longrightarrow> reset h s = s)
   \<and> reset h (reset h s) = reset h s"
  by (auto simp add: reset_def destroy_def field_defs fun_upd_idem)

theorem C8_reset_idempotent_witness:
  "destroyed (reset 0 (ctor 0 7 initial)) = [7]
   \<and> native_ptr 0 (reset 0 (ctor 0 7 initial)) = nullptr
   \<and> native_ptr 0 (default_ctor 0 initial) = nullptr
   \<and> reset 0 (default_ctor 0 initial) = default_ctor 0 initial
   \<and> reset 0 (reset 0 (ctor 0 7 initial)) = reset 0 (ctor 0 7 initial)"
  using C8_reset_idempotent [of 0 "ctor 0 7 initial"]
    C8_reset_idempotent [of 0 "default_ctor 0 initial"]
  by (simp add: run_defs)

text \<open>
  C9, as the code has it. Each of the six comparison operators returns the comparison of
  the two stored addresses after the conversion of each to the common pointer type, and
  leaves the state as it was. When neither conversion moves the address, as for two
  handles over the same element type, this is the comparison of the stored addresses
  themselves. Whatever the conversions, two default-constructed handles compare equal,
  two empty handles compare equal, and an empty handle and a handle that holds a non-null
  address compare unequal.
\<close>

theorem C9_comparisons:
  "operator_eq cl cr l r s = (convert cl (native_ptr l s) = convert cr (native_ptr r s), s)
   \<and> operator_ne cl cr l r s = (convert cl (native_ptr l s) \<noteq> convert cr (native_ptr r s), s)
   \<and> operator_le cl cr l r s = (convert cl (native_ptr l s) \<le> convert cr (native_ptr r s), s)
   \<and> operator_lt cl cr l r s = (convert cl (native_ptr l s) < convert cr (native_ptr r s), s)
   \<and> operator_ge cl cr l r s = (convert cl (native_ptr l s) \<ge> convert cr (native_ptr r s), s)
   \<and> operator_gt cl cr l r s = (convert cl (native_ptr l s) > convert cr (native_ptr r s), s)
   \<and> operator_eq Same Same l r s = (native_ptr l s = native_ptr r s, s)
   \<and> operator_ne Same Same l r s = (native_ptr l s \<noteq> native_ptr r s, s)
   \<and> operator_le Same Same l r s = (native_ptr l s \<le> native_ptr r s, s)
   \<and> operator_lt Same Same l r s = (native_ptr l s < native_ptr r s, s)
   \<and> operator_ge Same Same l r s = (native_ptr l s \<ge> native_ptr r s, s)
   \<and> operator_gt Same Same l r s = (native_ptr l s > native_ptr r s, s)
   \<and> fst (operator_eq cl cr l r (default_ctor r (default_ctor l s)))
   \<and> (native_ptr l s = nullptr \<and> native_ptr r s = nullptr \<longrightarrow>
        fst (operator_eq cl cr l r s))
   \<and> (native_ptr l s = nullptr \<and> native_ptr r s \<noteq> nullptr \<longrightarrow>
        fst (operator_ne cl cr l r s) \<and> fst (operator_ne cr cl r l s)
        \<and> \<not> fst (operator_eq cl cr l r s) \<and> \<not> fst (operator_eq cr cl r l s))"
proof -
  have null: "convert c nullptr = nullptr" for c
    by (cases c) simp_all
  have non_null: "p \<noteq> nullptr \<Longrightarrow> convert c p \<noteq> nullptr" for c p
    by (cases c) (simp_all add: nullptr_def)
  show ?thesis
    using non_null [of "native_ptr r s" cr]
    by (auto simp add: operator_eq_def operator_ne_def operator_le_def operator_lt_def
          operator_ge_def operator_gt_def compare_with_def get_def default_ctor_def
          field_defs null)
qed

theorem C9_comparisons_witness:
  "native_ptr 0 (ctor 1 8 (default_ctor 0 initial)) = nullptr
   \<and> native_ptr 1 (ctor 1 8 (default_ctor 0 initial)) \<noteq> nullptr
   \<and> fst (operator_ne Same Same 0 1 (ctor 1 8 (default_ctor 0 initial)))
   \<and> \<not> fst (operator_eq Same Same 0 1 (ctor 1 8 (default_ctor 0 initial)))
   \<and> fst (operator_lt Same Same 0 1 (ctor 1 8 (default_ctor 0 initial)))
   \<and> \<not> fst (operator_ge Same Same 0 1 (ctor 1 8 (default_ctor 0 initial)))
   \<and> snd (operator_le Same Same 0 1 (ctor 1 8 (default_ctor 0 initial)))
       = ctor 1 8 (default_ctor 0 initial)
   \<and> fst (operator_ne (To_base 8) Same 0 1 (ctor 1 8 (default_ctor 0 initial)))
   \<and> fst (operator_eq (To_base 8) Same 0 1 (default_ctor 1 (default_ctor 0 initial)))
   \<and> fst (operator_eq (To_base 8) Same 0 1 (ctor 1 24 (ctor 0 16 initial)))"
  using C9_comparisons [of Same Same 0 1 "ctor 1 8 (default_ctor 0 initial)"]
    C9_comparisons [of "To_base 8" Same 0 1 "ctor 1 8 (default_ctor 0 initial)"]
    C9_comparisons [of "To_base 8" Same 0 1 initial]
    C9_comparisons [of "To_base 8" Same 0 1 "ctor 1 24 (ctor 0 16 initial)"]
  by (simp add: run_defs)

text \<open>
  C9 as it is stated fails for handles over related element types. Let the left handle
  be over a class whose base subobject of the right handle's element type lies 8 bytes
  into it, and let the handles hold the addresses 16 and 24: the stored addresses differ
  and the first is the smaller, yet the handles compare equal and not less.
\<close>

theorem C9_related_types_counterexample:
  "native_ptr 0 (ctor 1 24 (ctor 0 16 initial)) = 16
   \<and> native_ptr 1 (ctor 1 24 (ctor 0 16 initial)) = 24
   \<and> fst (operator_eq (To_base 8) Same 0 1 (ctor 1 24 (ctor 0 16 initial)))
   \<and> \<not> fst (operator_ne (To_base 8) Same 0 1 (ctor 1 24 (ctor 0 16 initial)))
   \<and> \<not> fst (operator_lt (To_base 8) Same 0 1 (ctor 1 24 (ctor 0 16 initial)))"
  by (simp add: operator_eq_def operator_ne_def operator_lt_def compare_with_def run_defs)

text \<open>
  C10. The claim has dereference return access to the owned object whenever the handle
  is non-empty, and stop at an assertion at run time when it is empty. The code does not
  do this: the assertion of \<open>operator*\<close> and \<open>operator->\<close> is a \<open>static_assert\<close> over a
  value known only at run time, so both members are ill-formed for every handle, the
  non-empty ones too, and no dereference returns.
\<close>

theorem C10_dereference_ill_formed:
  "operator_star h s = Inl Ill_formed \<and> operator_arrow h s = Inl Ill_formed"
  by (simp add: operator_star_def operator_arrow_def static_assert_def)

theorem C10_dereference_ill_formed_witness:
  "fst (operator_bool 0 (ctor 0 7 initial))
   \<and> operator_star 0 (ctor 0 7 initial) = Inl Ill_formed
   \<and> operator_arrow 0 (ctor 0 7 initial) = Inl Ill_formed"
  using C10_dereference_ill_formed [of 0 "ctor 0 7 initial"]
  by (simp add: run_defs)

end
